theory Spec2Isabelle
  imports Complex_Main "HOL-Library.Word"
begin

section \<open>The node and wallet facades of \<open>src/interfaces\<close>\<close>

text \<open>
  A shallow embedding of \<^verbatim>\<open>interfaces/node.cpp\<close> and \<^verbatim>\<open>interfaces/wallet.cpp\<close>.
  \<^verbatim>\<open>NodeImpl\<close> has no data members: everything its methods read or write is a global of
  the node process, so the model passes a record of those globals explicitly. A method
  that takes \<^verbatim>\<open>LOCK(::cs_main)\<close> is written in state-passing style and returns the
  globals it leaves behind.
\<close>

subsection \<open>Machine types\<close>

text \<open>
  \<^verbatim>\<open>int\<close>, \<^verbatim>\<open>int64_t\<close> and \<^verbatim>\<open>size_t\<close> are words; the signed ones are read with
  \<^const>\<open>sint\<close>. The facade only passes these values on and never computes with them.
\<close>

type_synonym c_int = "32 word"
type_synonym int64_t = "64 word"
type_synonym size_t = "64 word"

subsection \<open>Errors\<close>

text \<open>
  \<^verbatim>\<open>Logic_error\<close> is the \<^verbatim>\<open>std::logic_error\<close> thrown by \<^verbatim>\<open>CHECK_WALLET\<close> in a
  build without \<^verbatim>\<open>ENABLE_WALLET\<close>. \<^verbatim>\<open>Null_dereference\<close> makes the undefined behaviour of
  \<^verbatim>\<open>block->nHeight\<close> and \<^verbatim>\<open>*wallet\<close> on a null pointer explicit, and
  \<^verbatim>\<open>Invalid_reference\<close> that of a \<^verbatim>\<open>this\<close> pointer or a \<^verbatim>\<open>CWallet &\<close> that refers to
  no live object.
\<close>

datatype error = Logic_error string | Null_dereference | Invalid_reference

subsection \<open>The subsystems behind the facade\<close>

text \<open>
  Modelled from the spec: \<^verbatim>\<open>CBlockIndex\<close> (\<^verbatim>\<open>chain.h\<close> is not among the sources). The
  facade reads the member \<^verbatim>\<open>nHeight\<close> and the result of \<^verbatim>\<open>GetBlockTime()\<close> ("height:
  int, block-time: int64") and nothing else.
\<close>

record CBlockIndex =
  nHeight :: c_int
  GetBlockTime :: int64_t

text \<open>
  Modelled from the spec: \<^verbatim>\<open>CChain\<close> (\<^verbatim>\<open>chain.h\<close>), by what its two accessors return:
  \<^verbatim>\<open>Tip()\<close> is a pointer to the tip or null, \<^verbatim>\<open>Height()\<close> the chain height.
\<close>

record CChain =
  Tip :: "CBlockIndex option"
  Height :: c_int

text \<open>
  Modelled from the spec: \<^verbatim>\<open>CBlock\<close> and \<^verbatim>\<open>CChainParams\<close> (\<^verbatim>\<open>primitives/block.h\<close>,
  \<^verbatim>\<open>chainparams.h\<close>). \<^verbatim>\<open>Params()\<close> yields the currently selected network parameters,
  of which the facade uses the genesis block and the transaction data \<^verbatim>\<open>TxData()\<close>; the
  type of the latter is left open.
\<close>

record CBlock =
  Block_GetBlockTime :: int64_t

record 't CChainParams =
  GenesisBlock :: CBlock
  TxData :: 't

text \<open>
  Modelled from the spec: \<^verbatim>\<open>CConnman\<close> (\<^verbatim>\<open>net.h\<close>), by what its accessors return
  ("peer/connection counts and byte counters, network-active flag"). The enumeration
  \<^verbatim>\<open>CConnman::NumConnections\<close> is passed through unchanged.
\<close>

type_synonym NumConnections = nat

record CConnman =
  GetNodeCount :: "NumConnections \<Rightarrow> size_t"
  GetTotalBytesRecv :: int64_t
  GetTotalBytesSent :: int64_t
  GetNetworkActive :: bool

text \<open>
  Modelled from the spec: \<^verbatim>\<open>CTxMemPool\<close> (\<^verbatim>\<open>txmempool.h\<close>), by the results of
  \<^verbatim>\<open>size()\<close> and \<^verbatim>\<open>DynamicMemoryUsage()\<close> ("mempool size/memory").
\<close>

record CTxMemPool =
  mempool_size :: size_t
  DynamicMemoryUsage :: size_t

text \<open>
  The commands the facade hands to a subsystem. The code that executes them
  (\<^verbatim>\<open>init.cpp\<close>, \<^verbatim>\<open>net.cpp\<close>, \<^verbatim>\<open>util.cpp\<close>, \<^verbatim>\<open>chainparams.cpp\<close>) is not among the
  sources, so the model records each call with its arguments, in order, and leaves the
  subsystem's reaction open: no theorem below relates a query made after a command to
  that command. \<^verbatim>\<open>Config &\<close>, \<^verbatim>\<open>RPCServer &\<close> and \<^verbatim>\<open>HTTPRPCRequestProcessor &\<close> are
  addresses.
\<close>

datatype subsystem_call =
    Call_StartShutdown
  | Call_StartMapPort
  | Call_InterruptMapPort
  | Call_StopMapPort
  | Call_SetNetworkActive bool
  | Call_ParseParameters "string list"
  | Call_ReadConfigFile string
  | Call_SoftSetArg string string
  | Call_SoftSetBoolArg string bool
  | Call_SelectParams string
  | Call_InitLogging
  | Call_InitParameterInteraction
  | Call_AppInitBasicSetup
  | Call_AppInitParameterInteraction nat nat
  | Call_AppInitSanityChecks
  | Call_AppInitLockDataDirectory
  | Call_AppInitMain nat nat
  | Call_Interrupt
  | Call_Shutdown

text \<open>
  Modelled from the spec: the globals of the node process that \<^verbatim>\<open>NodeImpl\<close> touches
  (declared in \<^verbatim>\<open>net.h\<close>, \<^verbatim>\<open>validation.h\<close>, \<^verbatim>\<open>txmempool.h\<close> and
  \<^verbatim>\<open>chainparams.h\<close>). \<^verbatim>\<open>g_connman\<close> and \<^verbatim>\<open>pindexBestHeader\<close> are pointers that may
  be null. \<^verbatim>\<open>IsInitialBlockDownload\<close> stands for the result of the function of that name
  ("initial-sync flag"). \<^verbatim>\<open>cs_main\<close> is the depth to which the calling thread holds the
  recursive mutex of that name, and \<^verbatim>\<open>calls\<close> the commands received by the subsystems
  so far.
\<close>

record 't node_state =
  g_connman :: "CConnman option"
  g_mempool :: CTxMemPool
  pindexBestHeader :: "CBlockIndex option"
  chainActive :: CChain
  Params :: "'t CChainParams"
  fReindex :: bool
  fImporting :: bool
  IsInitialBlockDownload :: bool
  cs_main :: nat
  calls :: "subsystem_call list"

text \<open>
  Modelled from the spec: \<^verbatim>\<open>LOCK\<close> (\<^verbatim>\<open>sync.h\<close>), the scoped acquisition of a recursive
  mutex: taken where the macro stands, released when the enclosing block is left, on
  every path.
\<close>

definition ENTER_CRITICAL_SECTION :: "'t node_state \<Rightarrow> 't node_state" where
  "ENTER_CRITICAL_SECTION s = s\<lparr>cs_main := Suc (cs_main s)\<rparr>"

definition LEAVE_CRITICAL_SECTION :: "'t node_state \<Rightarrow> 't node_state" where
  "LEAVE_CRITICAL_SECTION s = s\<lparr>cs_main := cs_main s - 1\<rparr>"

subsection \<open>Query methods of \<^verbatim>\<open>NodeImpl\<close>\<close>

definition getNodeCount :: "NumConnections \<Rightarrow> 't node_state \<Rightarrow> size_t \<times> 't node_state" where
  "getNodeCount flags s =
     ((case g_connman s of Some connman \<Rightarrow> GetNodeCount connman flags | None \<Rightarrow> 0), s)"

definition getTotalBytesRecv :: "'t node_state \<Rightarrow> int64_t \<times> 't node_state" where
  "getTotalBytesRecv s =
     ((case g_connman s of Some connman \<Rightarrow> GetTotalBytesRecv connman | None \<Rightarrow> 0), s)"

definition getTotalBytesSent :: "'t node_state \<Rightarrow> int64_t \<times> 't node_state" where
  "getTotalBytesSent s =
     ((case g_connman s of Some connman \<Rightarrow> GetTotalBytesSent connman | None \<Rightarrow> 0), s)"

definition getMempoolSize :: "'t node_state \<Rightarrow> size_t \<times> 't node_state" where
  "getMempoolSize s = (mempool_size (g_mempool s), s)"

definition getMempoolDynamicUsage :: "'t node_state \<Rightarrow> size_t \<times> 't node_state" where
  "getMempoolDynamicUsage s = (DynamicMemoryUsage (g_mempool s), s)"

text \<open>
  The two reference parameters of \<^verbatim>\<open>getHeaderTip\<close> are passed in and handed back: the
  result is the returned flag with the values \<^verbatim>\<open>height\<close> and \<^verbatim>\<open>block_time\<close> hold
  after the call.
\<close>

definition getHeaderTip ::
  "c_int \<Rightarrow> int64_t \<Rightarrow> 't node_state \<Rightarrow> (bool \<times> c_int \<times> int64_t) \<times> 't node_state" where
  "getHeaderTip height block_time s =
     (let s1 = ENTER_CRITICAL_SECTION s in
      case pindexBestHeader s1 of
        Some header \<Rightarrow>
          ((True, nHeight header, GetBlockTime header), LEAVE_CRITICAL_SECTION s1)
      | None \<Rightarrow> ((False, height, block_time), LEAVE_CRITICAL_SECTION s1))"

definition getNumBlocks :: "'t node_state \<Rightarrow> c_int \<times> 't node_state" where
  "getNumBlocks s =
     (let s1 = ENTER_CRITICAL_SECTION s in
      (Height (chainActive s1), LEAVE_CRITICAL_SECTION s1))"

definition getLastBlockTime :: "'t node_state \<Rightarrow> int64_t \<times> 't node_state" where
  "getLastBlockTime s =
     (let s1 = ENTER_CRITICAL_SECTION s in
      case Tip (chainActive s1) of
        Some tip \<Rightarrow> (GetBlockTime tip, LEAVE_CRITICAL_SECTION s1)
      | None \<Rightarrow>
          (Block_GetBlockTime (GenesisBlock (Params s1)), LEAVE_CRITICAL_SECTION s1))"

text \<open>
  \<^verbatim>\<open>GuessVerificationProgress\<close> (\<^verbatim>\<open>validation.cpp\<close>) is not among the sources and is a
  parameter \<open>gvp\<close> of every definition that calls it; it takes the transaction data and
  a block pointer that may be null. The type \<open>'d\<close> stands for \<^verbatim>\<open>double\<close>.
\<close>

definition getVerificationProgress ::
  "('t \<Rightarrow> CBlockIndex option \<Rightarrow> 'd) \<Rightarrow> 't node_state \<Rightarrow> 'd \<times> 't node_state" where
  "getVerificationProgress gvp s =
     (let s1 = ENTER_CRITICAL_SECTION s;
          tip = Tip (chainActive s1);
          s2 = LEAVE_CRITICAL_SECTION s1
      in (gvp (TxData (Params s2)) tip, s2))"

definition isInitialBlockDownload :: "'t node_state \<Rightarrow> bool \<times> 't node_state" where
  "isInitialBlockDownload s = (IsInitialBlockDownload s, s)"

definition getReindex :: "'t node_state \<Rightarrow> bool \<times> 't node_state" where
  "getReindex s = (fReindex s, s)"

definition getImporting :: "'t node_state \<Rightarrow> bool \<times> 't node_state" where
  "getImporting s = (fImporting s, s)"

definition getNetworkActive :: "'t node_state \<Rightarrow> bool \<times> 't node_state" where
  "getNetworkActive s =
     ((case g_connman s of Some connman \<Rightarrow> GetNetworkActive connman | None \<Rightarrow> False), s)"

subsection \<open>Control methods of \<^verbatim>\<open>NodeImpl\<close>\<close>

text \<open>
  A call into a subsystem appends the command to \<^verbatim>\<open>calls\<close>. The control methods
  return \<^verbatim>\<open>void\<close>: the model returns the globals and no value.
\<close>

definition invoke :: "subsystem_call \<Rightarrow> 't node_state \<Rightarrow> 't node_state" where
  "invoke c s = s\<lparr>calls := calls s @ [c]\<rparr>"

definition startShutdown :: "'t node_state \<Rightarrow> 't node_state" where
  "startShutdown s = invoke Call_StartShutdown s"

definition mapPort :: "bool \<Rightarrow> 't node_state \<Rightarrow> 't node_state" where
  "mapPort use_upnp s =
     (if use_upnp then invoke Call_StartMapPort s
      else invoke Call_StopMapPort (invoke Call_InterruptMapPort s))"

definition setNetworkActive :: "bool \<Rightarrow> 't node_state \<Rightarrow> 't node_state" where
  "setNetworkActive active s =
     (case g_connman s of
        Some connman \<Rightarrow> invoke (Call_SetNetworkActive active) s
      | None \<Rightarrow> s)"

subsection \<open>Event channels and subscription handles\<close>

text \<open>
  Modelled from the spec: the Event Channel (the signals of \<^verbatim>\<open>ui_interface.h\<close> and
  \<^verbatim>\<open>wallet/wallet.h\<close>; neither they nor the signal library are among the sources). A
  channel maps registration identifiers, assigned in increasing order and never reused,
  to the stored callbacks. \<^verbatim>\<open>connect\<close> always succeeds and returns the fresh
  identifier, \<^verbatim>\<open>unregister\<close> removes the callback if it is present, and \<^verbatim>\<open>emit\<close>
  invokes every callback registered at that moment once. The spec leaves the order of
  invocation open; the model takes the order of registration. A slot acts on a state
  \<open>'w\<close>; an \<^typ>\<open>error\<close> of a slot is undefined behaviour of the process and ends the
  emission.
\<close>

type_synonym ('a, 'w) slot = "'a \<Rightarrow> 'w \<Rightarrow> error + 'w"

record ('a, 'w) signal =
  slots :: "(nat \<times> ('a, 'w) slot) list"
  next_id :: nat

definition connect :: "('a, 'w) slot \<Rightarrow> ('a, 'w) signal \<Rightarrow> nat \<times> ('a, 'w) signal" where
  "connect f sig =
     (next_id sig,
      sig\<lparr>slots := slots sig @ [(next_id sig, f)], next_id := Suc (next_id sig)\<rparr>)"

definition unregister :: "nat \<Rightarrow> ('a, 'w) signal \<Rightarrow> ('a, 'w) signal" where
  "unregister i sig = sig\<lparr>slots := filter (\<lambda>c. fst c \<noteq> i) (slots sig)\<rparr>"

fun invoke_slots :: "(nat \<times> ('a, 'w) slot) list \<Rightarrow> 'a \<Rightarrow> 'w \<Rightarrow> error + 'w" where
  "invoke_slots [] a w = Inr w"
| "invoke_slots (c # cs) a w =
     (case snd c a w of Inl e \<Rightarrow> Inl e | Inr w' \<Rightarrow> invoke_slots cs a w')"

definition emit :: "('a, 'w) signal \<Rightarrow> 'a \<Rightarrow> 'w \<Rightarrow> error + 'w" where
  "emit sig a w = invoke_slots (slots sig) a w"

text \<open>
  \<^verbatim>\<open>WalletImpl\<close> has one member, the reference \<^verbatim>\<open>m_wallet\<close>, here the address of the
  wallet. \<^verbatim>\<open>std::make_unique\<close> allocates: the facades constructed so far are a list,
  the address of a facade is its index, and a \<^verbatim>\<open>std::unique_ptr<Wallet>\<close> is such an
  address. The model never frees a facade.
\<close>

record WalletImpl =
  m_wallet :: nat

definition MakeWallet :: "nat \<Rightarrow> WalletImpl list \<Rightarrow> nat \<times> WalletImpl list" where
  "MakeWallet wallet heap = (length heap, heap @ [\<lparr>m_wallet = wallet\<rparr>])"

text \<open>
  What a slot can reach when it runs: the globals of the node, the facades, and the
  state \<open>'e\<close> of the external code that subscribed. An external callback is a function
  of its arguments on \<open>'e\<close>.
\<close>

record ('t, 'e) world =
  node :: "'t node_state"
  facades :: "WalletImpl list"
  ext :: 'e

definition external :: "('a \<Rightarrow> 'e \<Rightarrow> 'e) \<Rightarrow> ('a, ('t, 'e) world) slot" where
  "external fn a w = Inr (w\<lparr>ext := fn a (ext w)\<rparr>)"

text \<open>
  Modelled from the spec: the argument tuple of a progress update, "(title: string,
  progress-percent: int, resumable: bool)".
\<close>

type_synonym ShowProgress_args = "string \<times> c_int \<times> bool"

text \<open>
  Modelled from the spec: the argument tuples of the other signals of
  \<^verbatim>\<open>CClientUIInterface\<close> (\<^verbatim>\<open>ui_interface.h\<close>): "message box / question: (message:
  string, caption: string, style flags)", "connection count changed: (new-count: int)",
  "network-active changed: (active: bool)". The spec has no row for \<^verbatim>\<open>InitMessage\<close>,
  \<^verbatim>\<open>NotifyAlertChanged\<close> and \<^verbatim>\<open>BannedListChanged\<close>; the first carries its message and the
  other two nothing. The facade connects the callback of each of them as it is, so
  none of these tuples is inspected by the code modelled here. The progress signal of
  the node is \<^verbatim>\<open>ShowProgress\<close> in the source; the name is taken by the wallet's.
\<close>

type_synonym MessageBox_args = "string \<times> string \<times> nat"

record ('t, 'e) CClientUIInterface =
  LoadWallet :: "(nat option, ('t, 'e) world) signal"
  NotifyBlockTip :: "(bool \<times> CBlockIndex option, ('t, 'e) world) signal"
  NotifyHeaderTip :: "(bool \<times> CBlockIndex option, ('t, 'e) world) signal"
  InitMessage :: "(string, ('t, 'e) world) signal"
  ThreadSafeMessageBox :: "(MessageBox_args, ('t, 'e) world) signal"
  ThreadSafeQuestion :: "(MessageBox_args, ('t, 'e) world) signal"
  ShowProgress_ui :: "(ShowProgress_args, ('t, 'e) world) signal"
  NotifyNumConnectionsChanged :: "(c_int, ('t, 'e) world) signal"
  NotifyNetworkActiveChanged :: "(bool, ('t, 'e) world) signal"
  NotifyAlertChanged :: "(unit, ('t, 'e) world) signal"
  BannedListChanged :: "(unit, ('t, 'e) world) signal"

record ('t, 'e) CWallet =
  ShowProgress :: "(ShowProgress_args, ('t, 'e) world) signal"

record ('t, 'e) process =
  uiInterface :: "('t, 'e) CClientUIInterface"
  wallets :: "('t, 'e) CWallet list"
  world :: "('t, 'e) world"

text \<open>
  Modelled from the spec: the Subscription Handle (\<^verbatim>\<open>interfaces/handler.cpp\<close> is not
  among the sources). It holds the identity of its channel and the registration
  identifier. \<^verbatim>\<open>disconnect\<close> calls the channel's \<^verbatim>\<open>unregister\<close> and marks the handle
  disconnected; on a disconnected handle it does nothing.
\<close>

datatype channel_id =
    LoadWallet_channel
  | NotifyBlockTip_channel
  | NotifyHeaderTip_channel
  | ShowProgress_channel nat
  | InitMessage_channel
  | ThreadSafeMessageBox_channel
  | ThreadSafeQuestion_channel
  | ShowProgress_ui_channel
  | NotifyNumConnectionsChanged_channel
  | NotifyNetworkActiveChanged_channel
  | NotifyAlertChanged_channel
  | BannedListChanged_channel

record Handler =
  channel :: channel_id
  registration :: nat
  connected :: bool

definition MakeHandler :: "channel_id \<Rightarrow> nat \<Rightarrow> Handler" where
  "MakeHandler ch i = \<lparr>channel = ch, registration = i, connected = True\<rparr>"

definition unregister_from :: "channel_id \<Rightarrow> nat \<Rightarrow> ('t, 'e) process \<Rightarrow> ('t, 'e) process" where
  "unregister_from ch i p =
     (case ch of
        LoadWallet_channel \<Rightarrow>
          p\<lparr>uiInterface := (uiInterface p)\<lparr>LoadWallet := unregister i (LoadWallet (uiInterface p))\<rparr>\<rparr>
      | NotifyBlockTip_channel \<Rightarrow>
          p\<lparr>uiInterface :=
              (uiInterface p)\<lparr>NotifyBlockTip := unregister i (NotifyBlockTip (uiInterface p))\<rparr>\<rparr>
      | NotifyHeaderTip_channel \<Rightarrow>
          p\<lparr>uiInterface :=
              (uiInterface p)\<lparr>NotifyHeaderTip := unregister i (NotifyHeaderTip (uiInterface p))\<rparr>\<rparr>
      | ShowProgress_channel a \<Rightarrow>
          (if a < length (wallets p)
           then p\<lparr>wallets :=
                   (wallets p)[a := (wallets p ! a)\<lparr>ShowProgress :=
                                     unregister i (ShowProgress (wallets p ! a))\<rparr>]\<rparr>
           else p)
      | InitMessage_channel \<Rightarrow>
          p\<lparr>uiInterface :=
              (uiInterface p)\<lparr>InitMessage := unregister i (InitMessage (uiInterface p))\<rparr>\<rparr>
      | ThreadSafeMessageBox_channel \<Rightarrow>
          p\<lparr>uiInterface :=
              (uiInterface p)\<lparr>ThreadSafeMessageBox :=
                                unregister i (ThreadSafeMessageBox (uiInterface p))\<rparr>\<rparr>
      | ThreadSafeQuestion_channel \<Rightarrow>
          p\<lparr>uiInterface :=
              (uiInterface p)\<lparr>ThreadSafeQuestion :=
                                unregister i (ThreadSafeQuestion (uiInterface p))\<rparr>\<rparr>
      | ShowProgress_ui_channel \<Rightarrow>
          p\<lparr>uiInterface :=
              (uiInterface p)\<lparr>ShowProgress_ui := unregister i (ShowProgress_ui (uiInterface p))\<rparr>\<rparr>
      | NotifyNumConnectionsChanged_channel \<Rightarrow>
          p\<lparr>uiInterface :=
              (uiInterface p)\<lparr>NotifyNumConnectionsChanged :=
                                unregister i (NotifyNumConnectionsChanged (uiInterface p))\<rparr>\<rparr>
      | NotifyNetworkActiveChanged_channel \<Rightarrow>
          p\<lparr>uiInterface :=
              (uiInterface p)\<lparr>NotifyNetworkActiveChanged :=
                                unregister i (NotifyNetworkActiveChanged (uiInterface p))\<rparr>\<rparr>
      | NotifyAlertChanged_channel \<Rightarrow>
          p\<lparr>uiInterface :=
              (uiInterface p)\<lparr>NotifyAlertChanged :=
                                unregister i (NotifyAlertChanged (uiInterface p))\<rparr>\<rparr>
      | BannedListChanged_channel \<Rightarrow>
          p\<lparr>uiInterface :=
              (uiInterface p)\<lparr>BannedListChanged :=
                                unregister i (BannedListChanged (uiInterface p))\<rparr>\<rparr>)"

definition disconnect :: "Handler \<Rightarrow> ('t, 'e) process \<Rightarrow> Handler \<times> ('t, 'e) process" where
  "disconnect h p =
     (if connected h
      then (h\<lparr>connected := False\<rparr>, unregister_from (channel h) (registration h) p)
      else (h, p))"

subsection \<open>Subscription methods of \<^verbatim>\<open>NodeImpl\<close> and \<^verbatim>\<open>WalletImpl\<close>\<close>

text \<open>
  \<^verbatim>\<open>CHECK_WALLET(x)\<close> expands to \<^verbatim>\<open>x\<close> in a build with \<^verbatim>\<open>ENABLE_WALLET\<close> and to the
  \<^verbatim>\<open>throw\<close> otherwise; the build option is a parameter.
\<close>

definition CHECK_WALLET :: "bool \<Rightarrow> error + 'a \<Rightarrow> error + 'a" where
  "CHECK_WALLET ENABLE_WALLET x =
     (if ENABLE_WALLET then x
      else Inl (Logic_error ''Wallet function called in non-wallet build.''))"

text \<open>The lambda \<^verbatim>\<open>[fn](CWallet *wallet) { fn(MakeWallet(*wallet)); }\<close>.\<close>

definition LoadWallet_slot :: "(nat \<Rightarrow> 'e \<Rightarrow> 'e) \<Rightarrow> (nat option, ('t, 'e) world) slot" where
  "LoadWallet_slot fn wallet w =
     (case wallet of
        None \<Rightarrow> Inl Null_dereference
      | Some a \<Rightarrow>
          (case MakeWallet a (facades w) of
             (ptr, heap) \<Rightarrow> Inr (w\<lparr>facades := heap, ext := fn ptr (ext w)\<rparr>)))"

definition handleLoadWallet ::
  "bool \<Rightarrow> (nat \<Rightarrow> 'e \<Rightarrow> 'e) \<Rightarrow> ('t, 'e) process \<Rightarrow> error + Handler \<times> ('t, 'e) process" where
  "handleLoadWallet ENABLE_WALLET fn p =
     CHECK_WALLET ENABLE_WALLET
       (case connect (LoadWallet_slot fn) (LoadWallet (uiInterface p)) of
          (i, sig) \<Rightarrow>
            Inr (MakeHandler LoadWallet_channel i,
                 p\<lparr>uiInterface := (uiInterface p)\<lparr>LoadWallet := sig\<rparr>\<rparr>))"

text \<open>
  The lambda of \<^verbatim>\<open>handleNotifyBlockTip\<close> and \<^verbatim>\<open>handleNotifyHeaderTip\<close>:
  \<^verbatim>\<open>fn(initial_download, block->nHeight, block->GetBlockTime(),
  GuessVerificationProgress(::Params().TxData(), block))\<close>.
\<close>

definition tip_slot ::
  "('t \<Rightarrow> CBlockIndex option \<Rightarrow> 'd) \<Rightarrow> (bool \<Rightarrow> c_int \<Rightarrow> int64_t \<Rightarrow> 'd \<Rightarrow> 'e \<Rightarrow> 'e) \<Rightarrow>
   (bool \<times> CBlockIndex option, ('t, 'e) world) slot" where
  "tip_slot gvp fn a w =
     (case a of
        (initial_download, None) \<Rightarrow> Inl Null_dereference
      | (initial_download, Some block) \<Rightarrow>
          Inr (w\<lparr>ext := fn initial_download (nHeight block) (GetBlockTime block)
                         (gvp (TxData (Params (node w))) (Some block)) (ext w)\<rparr>))"

definition handleNotifyBlockTip ::
  "('t \<Rightarrow> CBlockIndex option \<Rightarrow> 'd) \<Rightarrow> (bool \<Rightarrow> c_int \<Rightarrow> int64_t \<Rightarrow> 'd \<Rightarrow> 'e \<Rightarrow> 'e) \<Rightarrow>
   ('t, 'e) process \<Rightarrow> Handler \<times> ('t, 'e) process" where
  "handleNotifyBlockTip gvp fn p =
     (case connect (tip_slot gvp fn) (NotifyBlockTip (uiInterface p)) of
        (i, sig) \<Rightarrow>
          (MakeHandler NotifyBlockTip_channel i,
           p\<lparr>uiInterface := (uiInterface p)\<lparr>NotifyBlockTip := sig\<rparr>\<rparr>))"

definition handleNotifyHeaderTip ::
  "('t \<Rightarrow> CBlockIndex option \<Rightarrow> 'd) \<Rightarrow> (bool \<Rightarrow> c_int \<Rightarrow> int64_t \<Rightarrow> 'd \<Rightarrow> 'e \<Rightarrow> 'e) \<Rightarrow>
   ('t, 'e) process \<Rightarrow> Handler \<times> ('t, 'e) process" where
  "handleNotifyHeaderTip gvp fn p =
     (case connect (tip_slot gvp fn) (NotifyHeaderTip (uiInterface p)) of
        (i, sig) \<Rightarrow>
          (MakeHandler NotifyHeaderTip_channel i,
           p\<lparr>uiInterface := (uiInterface p)\<lparr>NotifyHeaderTip := sig\<rparr>\<rparr>))"

text \<open>
  \<^verbatim>\<open>WalletImpl::handleShowProgress\<close>, called on the facade at address \<open>this\<close>:
  \<^verbatim>\<open>MakeHandler(m_wallet.ShowProgress.connect(fn))\<close>.
\<close>

definition WalletImpl_handleShowProgress ::
  "nat \<Rightarrow> (ShowProgress_args \<Rightarrow> 'e \<Rightarrow> 'e) \<Rightarrow> ('t, 'e) process \<Rightarrow>
   error + Handler \<times> ('t, 'e) process" where
  "WalletImpl_handleShowProgress this fn p =
     (if this < length (facades (world p)) then
        (let a = m_wallet (facades (world p) ! this) in
         if a < length (wallets p) then
           (case connect (external fn) (ShowProgress (wallets p ! a)) of
              (i, sig) \<Rightarrow>
                Inr (MakeHandler (ShowProgress_channel a) i,
                     p\<lparr>wallets := (wallets p)[a := (wallets p ! a)\<lparr>ShowProgress := sig\<rparr>]\<rparr>))
         else Inl Invalid_reference)
      else Inl Invalid_reference)"

subsection \<open>The remaining methods of \<^verbatim>\<open>NodeImpl\<close>\<close>

text \<open>
  The functions of absent files that return a value to the facade are parameters, a
  record \<open>ab\<close> that the methods calling them take: each gives the value the function
  returns for its arguments in the current state of the globals, the commands received
  so far included. \<^verbatim>\<open>proxyType\<close> (\<^verbatim>\<open>netbase.h\<close>) is the type \<open>'x\<close>; \<^verbatim>\<open>GetProxy\<close> gives the
  returned flag with the value its reference parameter holds after the call.
  \<^verbatim>\<open>HelpMessageMode\<close> and \<^verbatim>\<open>Network\<close> are enumerations, passed through unchanged. A
  function that throws is outside the model.
\<close>

record ('t, 'd, 'x) absent_code =
  GuessVerificationProgress :: "'t \<Rightarrow> CBlockIndex option \<Rightarrow> 'd"
  SoftSetArg :: "string \<Rightarrow> string \<Rightarrow> 't node_state \<Rightarrow> bool"
  SoftSetBoolArg :: "string \<Rightarrow> bool \<Rightarrow> 't node_state \<Rightarrow> bool"
  GetWarnings :: "string \<Rightarrow> 't node_state \<Rightarrow> string"
  AppInitBasicSetup :: "'t node_state \<Rightarrow> bool"
  AppInitParameterInteraction :: "nat \<Rightarrow> nat \<Rightarrow> 't node_state \<Rightarrow> bool"
  AppInitSanityChecks :: "'t node_state \<Rightarrow> bool"
  AppInitLockDataDirectory :: "'t node_state \<Rightarrow> bool"
  AppInitMain :: "nat \<Rightarrow> nat \<Rightarrow> 't node_state \<Rightarrow> bool"
  ShutdownRequested :: "'t node_state \<Rightarrow> bool"
  HelpMessage :: "nat \<Rightarrow> 't node_state \<Rightarrow> string"
  GetProxy :: "nat \<Rightarrow> 'x \<Rightarrow> 't node_state \<Rightarrow> bool \<times> 'x"

definition parseParameters :: "string list \<Rightarrow> 't node_state \<Rightarrow> 't node_state" where
  "parseParameters argv s = invoke (Call_ParseParameters argv) s"

definition readConfigFile :: "string \<Rightarrow> 't node_state \<Rightarrow> 't node_state" where
  "readConfigFile conf_path s = invoke (Call_ReadConfigFile conf_path) s"

definition softSetArg ::
  "('t, 'd, 'x) absent_code \<Rightarrow> string \<Rightarrow> string \<Rightarrow> 't node_state \<Rightarrow> bool \<times> 't node_state" where
  "softSetArg ab arg val s = (SoftSetArg ab arg val s, invoke (Call_SoftSetArg arg val) s)"

definition softSetBoolArg ::
  "('t, 'd, 'x) absent_code \<Rightarrow> string \<Rightarrow> bool \<Rightarrow> 't node_state \<Rightarrow> bool \<times> 't node_state" where
  "softSetBoolArg ab arg val s =
     (SoftSetBoolArg ab arg val s, invoke (Call_SoftSetBoolArg arg val) s)"

definition selectParams :: "string \<Rightarrow> 't node_state \<Rightarrow> 't node_state" where
  "selectParams network s = invoke (Call_SelectParams network) s"

definition initLogging :: "'t node_state \<Rightarrow> 't node_state" where
  "initLogging s = invoke Call_InitLogging s"

definition initParameterInteraction :: "'t node_state \<Rightarrow> 't node_state" where
  "initParameterInteraction s = invoke Call_InitParameterInteraction s"

definition getWarnings ::
  "('t, 'd, 'x) absent_code \<Rightarrow> string \<Rightarrow> 't node_state \<Rightarrow> string \<times> 't node_state" where
  "getWarnings ab type s = (GetWarnings ab type s, s)"

text \<open>
  \<^verbatim>\<open>baseInitialize\<close> is a chain of \<^verbatim>\<open>&&\<close>: a step is called only when every step
  before it returned true.
\<close>

definition baseInitialize ::
  "('t, 'd, 'x) absent_code \<Rightarrow> nat \<Rightarrow> nat \<Rightarrow> 't node_state \<Rightarrow> bool \<times> 't node_state" where
  "baseInitialize ab config rpcServer s =
     (let s1 = invoke Call_AppInitBasicSetup s in
      if \<not> AppInitBasicSetup ab s then (False, s1)
      else
        let s2 = invoke (Call_AppInitParameterInteraction config rpcServer) s1 in
        if \<not> AppInitParameterInteraction ab config rpcServer s1 then (False, s2)
        else
          let s3 = invoke Call_AppInitSanityChecks s2 in
          if \<not> AppInitSanityChecks ab s2 then (False, s3)
          else (AppInitLockDataDirectory ab s3, invoke Call_AppInitLockDataDirectory s3))"

definition appInitMain ::
  "('t, 'd, 'x) absent_code \<Rightarrow> nat \<Rightarrow> nat \<Rightarrow> 't node_state \<Rightarrow> bool \<times> 't node_state" where
  "appInitMain ab config httpRPCRequestProcessor s =
     (AppInitMain ab config httpRPCRequestProcessor s,
      invoke (Call_AppInitMain config httpRPCRequestProcessor) s)"

definition appShutdown :: "'t node_state \<Rightarrow> 't node_state" where
  "appShutdown s = invoke Call_Shutdown (invoke Call_Interrupt s)"

definition shutdownRequested ::
  "('t, 'd, 'x) absent_code \<Rightarrow> 't node_state \<Rightarrow> bool \<times> 't node_state" where
  "shutdownRequested ab s = (ShutdownRequested ab s, s)"

definition helpMessage ::
  "('t, 'd, 'x) absent_code \<Rightarrow> nat \<Rightarrow> 't node_state \<Rightarrow> string \<times> 't node_state" where
  "helpMessage ab mode s = (HelpMessage ab mode s, s)"

definition getProxy ::
  "('t, 'd, 'x) absent_code \<Rightarrow> nat \<Rightarrow> 'x \<Rightarrow> 't node_state \<Rightarrow> (bool \<times> 'x) \<times> 't node_state" where
  "getProxy ab net proxy_info s = (GetProxy ab net proxy_info s, s)"

text \<open>
  The subscription methods that connect the callback as it is. The callbacks of a
  message box and of a question return a \<^verbatim>\<open>bool\<close> to the emitting subsystem; the
  combiner that hands it back belongs to the signal library, and the slot keeps the
  callback's effect only.
\<close>

definition external_answering ::
  "('a \<Rightarrow> 'e \<Rightarrow> bool \<times> 'e) \<Rightarrow> ('a, ('t, 'e) world) slot" where
  "external_answering fn a w = Inr (w\<lparr>ext := snd (fn a (ext w))\<rparr>)"

definition handleInitMessage ::
  "(string \<Rightarrow> 'e \<Rightarrow> 'e) \<Rightarrow> ('t, 'e) process \<Rightarrow> Handler \<times> ('t, 'e) process" where
  "handleInitMessage fn p =
     (case connect (external fn) (InitMessage (uiInterface p)) of
        (i, sig) \<Rightarrow>
          (MakeHandler InitMessage_channel i,
           p\<lparr>uiInterface := (uiInterface p)\<lparr>InitMessage := sig\<rparr>\<rparr>))"

definition handleMessageBox ::
  "(MessageBox_args \<Rightarrow> 'e \<Rightarrow> bool \<times> 'e) \<Rightarrow> ('t, 'e) process \<Rightarrow> Handler \<times> ('t, 'e) process" where
  "handleMessageBox fn p =
     (case connect (external_answering fn) (ThreadSafeMessageBox (uiInterface p)) of
        (i, sig) \<Rightarrow>
          (MakeHandler ThreadSafeMessageBox_channel i,
           p\<lparr>uiInterface := (uiInterface p)\<lparr>ThreadSafeMessageBox := sig\<rparr>\<rparr>))"

definition handleQuestion ::
  "(MessageBox_args \<Rightarrow> 'e \<Rightarrow> bool \<times> 'e) \<Rightarrow> ('t, 'e) process \<Rightarrow> Handler \<times> ('t, 'e) process" where
  "handleQuestion fn p =
     (case connect (external_answering fn) (ThreadSafeQuestion (uiInterface p)) of
        (i, sig) \<Rightarrow>
          (MakeHandler ThreadSafeQuestion_channel i,
           p\<lparr>uiInterface := (uiInterface p)\<lparr>ThreadSafeQuestion := sig\<rparr>\<rparr>))"

definition handleShowProgress ::
  "(ShowProgress_args \<Rightarrow> 'e \<Rightarrow> 'e) \<Rightarrow> ('t, 'e) process \<Rightarrow> Handler \<times> ('t, 'e) process" where
  "handleShowProgress fn p =
     (case connect (external fn) (ShowProgress_ui (uiInterface p)) of
        (i, sig) \<Rightarrow>
          (MakeHandler ShowProgress_ui_channel i,
           p\<lparr>uiInterface := (uiInterface p)\<lparr>ShowProgress_ui := sig\<rparr>\<rparr>))"

definition handleNotifyNumConnectionsChanged ::
  "(c_int \<Rightarrow> 'e \<Rightarrow> 'e) \<Rightarrow> ('t, 'e) process \<Rightarrow> Handler \<times> ('t, 'e) process" where
  "handleNotifyNumConnectionsChanged fn p =
     (case connect (external fn) (NotifyNumConnectionsChanged (uiInterface p)) of
        (i, sig) \<Rightarrow>
          (MakeHandler NotifyNumConnectionsChanged_channel i,
           p\<lparr>uiInterface := (uiInterface p)\<lparr>NotifyNumConnectionsChanged := sig\<rparr>\<rparr>))"

definition handleNotifyNetworkActiveChanged ::
  "(bool \<Rightarrow> 'e \<Rightarrow> 'e) \<Rightarrow> ('t, 'e) process \<Rightarrow> Handler \<times> ('t, 'e) process" where
  "handleNotifyNetworkActiveChanged fn p =
     (case connect (external fn) (NotifyNetworkActiveChanged (uiInterface p)) of
        (i, sig) \<Rightarrow>
          (MakeHandler NotifyNetworkActiveChanged_channel i,
           p\<lparr>uiInterface := (uiInterface p)\<lparr>NotifyNetworkActiveChanged := sig\<rparr>\<rparr>))"

definition handleNotifyAlertChanged ::
  "(unit \<Rightarrow> 'e \<Rightarrow> 'e) \<Rightarrow> ('t, 'e) process \<Rightarrow> Handler \<times> ('t, 'e) process" where
  "handleNotifyAlertChanged fn p =
     (case connect (external fn) (NotifyAlertChanged (uiInterface p)) of
        (i, sig) \<Rightarrow>
          (MakeHandler NotifyAlertChanged_channel i,
           p\<lparr>uiInterface := (uiInterface p)\<lparr>NotifyAlertChanged := sig\<rparr>\<rparr>))"

definition handleBannedListChanged ::
  "(unit \<Rightarrow> 'e \<Rightarrow> 'e) \<Rightarrow> ('t, 'e) process \<Rightarrow> Handler \<times> ('t, 'e) process" where
  "handleBannedListChanged fn p =
     (case connect (external fn) (BannedListChanged (uiInterface p)) of
        (i, sig) \<Rightarrow>
          (MakeHandler BannedListChanged_channel i,
           p\<lparr>uiInterface := (uiInterface p)\<lparr>BannedListChanged := sig\<rparr>\<rparr>))"

subsection \<open>Facade objects and calls on them\<close>

text \<open>
  \<^verbatim>\<open>class NodeImpl : public Node\<close> declares no data member, so an object of it holds
  no value. \<^verbatim>\<open>MakeNode\<close> is \<^verbatim>\<open>std::make_unique<NodeImpl>()\<close>: the node facades
  constructed so far are a list beside the process, as the wallet facades are a list
  in \<^verbatim>\<open>facades\<close>, and the address of one is its index.
\<close>

datatype NodeImpl = NodeImpl

record ('t, 'e) program =
  node_facades :: "NodeImpl list"
  proc :: "('t, 'e) process"

definition MakeNode :: "('t, 'e) program \<Rightarrow> nat \<times> ('t, 'e) program" where
  "MakeNode st = (length (node_facades st), st\<lparr>node_facades := node_facades st @ [NodeImpl]\<rparr>)"

text \<open>
  A call through the interface \<^verbatim>\<open>Node\<close>: the method with its arguments, and what it
  returns. The reference parameters of \<^verbatim>\<open>getHeaderTip\<close> and \<^verbatim>\<open>getProxy\<close> come in with
  the call and go out with the result.
\<close>

datatype ('d, 'e, 'x) Node_method =
    M_parseParameters "string list"
  | M_readConfigFile string
  | M_softSetArg string string
  | M_softSetBoolArg string bool
  | M_selectParams string
  | M_initLogging
  | M_initParameterInteraction
  | M_getWarnings string
  | M_baseInitialize nat nat
  | M_appInitMain nat nat
  | M_appShutdown
  | M_startShutdown
  | M_shutdownRequested
  | M_mapPort bool
  | M_helpMessage nat
  | M_getProxy nat 'x
  | M_getNodeCount NumConnections
  | M_getTotalBytesRecv
  | M_getTotalBytesSent
  | M_getMempoolSize
  | M_getMempoolDynamicUsage
  | M_getHeaderTip c_int int64_t
  | M_getNumBlocks
  | M_getLastBlockTime
  | M_getVerificationProgress
  | M_isInitialBlockDownload
  | M_getReindex
  | M_getImporting
  | M_setNetworkActive bool
  | M_getNetworkActive
  | M_handleInitMessage "string \<Rightarrow> 'e \<Rightarrow> 'e"
  | M_handleMessageBox "MessageBox_args \<Rightarrow> 'e \<Rightarrow> bool \<times> 'e"
  | M_handleQuestion "MessageBox_args \<Rightarrow> 'e \<Rightarrow> bool \<times> 'e"
  | M_handleShowProgress "ShowProgress_args \<Rightarrow> 'e \<Rightarrow> 'e"
  | M_handleLoadWallet "nat \<Rightarrow> 'e \<Rightarrow> 'e"
  | M_handleNotifyNumConnectionsChanged "c_int \<Rightarrow> 'e \<Rightarrow> 'e"
  | M_handleNotifyNetworkActiveChanged "bool \<Rightarrow> 'e \<Rightarrow> 'e"
  | M_handleNotifyAlertChanged "unit \<Rightarrow> 'e \<Rightarrow> 'e"
  | M_handleBannedListChanged "unit \<Rightarrow> 'e \<Rightarrow> 'e"
  | M_handleNotifyBlockTip "bool \<Rightarrow> c_int \<Rightarrow> int64_t \<Rightarrow> 'd \<Rightarrow> 'e \<Rightarrow> 'e"
  | M_handleNotifyHeaderTip "bool \<Rightarrow> c_int \<Rightarrow> int64_t \<Rightarrow> 'd \<Rightarrow> 'e \<Rightarrow> 'e"

datatype ('d, 'x) returned =
    R_void
  | R_bool bool
  | R_int c_int
  | R_int64 int64_t
  | R_size size_t
  | R_double 'd
  | R_string string
  | R_header_tip "bool \<times> c_int \<times> int64_t"
  | R_proxy "bool \<times> 'x"
  | R_handler Handler

text \<open>
  The body of a method of \<^verbatim>\<open>NodeImpl\<close> names no member and not \<^verbatim>\<open>this\<close>: a query or a
  command runs on the globals, a subscription on the process.
\<close>

definition on_globals ::
  "('r \<Rightarrow> ('d, 'x) returned) \<Rightarrow> ('t node_state \<Rightarrow> 'r \<times> 't node_state) \<Rightarrow> ('t, 'e) program \<Rightarrow>
   error + ('d, 'x) returned \<times> ('t, 'e) program" where
  "on_globals ret f st =
     (case f (node (world (proc st))) of
        (r, s') \<Rightarrow> Inr (ret r, st\<lparr>proc := (proc st)\<lparr>world := (world (proc st))\<lparr>node := s'\<rparr>\<rparr>\<rparr>))"

definition command ::
  "('t node_state \<Rightarrow> 't node_state) \<Rightarrow> ('t, 'e) program \<Rightarrow>
   error + ('d, 'x) returned \<times> ('t, 'e) program" where
  "command f st = on_globals (\<lambda>u. R_void) (\<lambda>s. ((), f s)) st"

definition on_process ::
  "(('t, 'e) process \<Rightarrow> error + Handler \<times> ('t, 'e) process) \<Rightarrow> ('t, 'e) program \<Rightarrow>
   error + ('d, 'x) returned \<times> ('t, 'e) program" where
  "on_process f st =
     (case f (proc st) of Inl e \<Rightarrow> Inl e | Inr (h, p') \<Rightarrow> Inr (R_handler h, st\<lparr>proc := p'\<rparr>))"

fun NodeImpl_method ::
  "bool \<Rightarrow> ('t, 'd, 'x) absent_code \<Rightarrow> ('d, 'e, 'x) Node_method \<Rightarrow> ('t, 'e) program \<Rightarrow>
   error + ('d, 'x) returned \<times> ('t, 'e) program" where
  "NodeImpl_method ew ab (M_parseParameters argv) = command (parseParameters argv)"
| "NodeImpl_method ew ab (M_readConfigFile conf_path) = command (readConfigFile conf_path)"
| "NodeImpl_method ew ab (M_softSetArg arg val) = on_globals R_bool (softSetArg ab arg val)"
| "NodeImpl_method ew ab (M_softSetBoolArg arg val) = on_globals R_bool (softSetBoolArg ab arg val)"
| "NodeImpl_method ew ab (M_selectParams network) = command (selectParams network)"
| "NodeImpl_method ew ab M_initLogging = command initLogging"
| "NodeImpl_method ew ab M_initParameterInteraction = command initParameterInteraction"
| "NodeImpl_method ew ab (M_getWarnings type) = on_globals R_string (getWarnings ab type)"
| "NodeImpl_method ew ab (M_baseInitialize config rpcServer) =
     on_globals R_bool (baseInitialize ab config rpcServer)"
| "NodeImpl_method ew ab (M_appInitMain config processor) =
     on_globals R_bool (appInitMain ab config processor)"
| "NodeImpl_method ew ab M_appShutdown = command appShutdown"
| "NodeImpl_method ew ab M_startShutdown = command startShutdown"
| "NodeImpl_method ew ab M_shutdownRequested = on_globals R_bool (shutdownRequested ab)"
| "NodeImpl_method ew ab (M_mapPort use_upnp) = command (mapPort use_upnp)"
| "NodeImpl_method ew ab (M_helpMessage mode) = on_globals R_string (helpMessage ab mode)"
| "NodeImpl_method ew ab (M_getProxy net proxy_info) = on_globals R_proxy (getProxy ab net proxy_info)"
| "NodeImpl_method ew ab (M_getNodeCount flags) = on_globals R_size (getNodeCount flags)"
| "NodeImpl_method ew ab M_getTotalBytesRecv = on_globals R_int64 getTotalBytesRecv"
| "NodeImpl_method ew ab M_getTotalBytesSent = on_globals R_int64 getTotalBytesSent"
| "NodeImpl_method ew ab M_getMempoolSize = on_globals R_size getMempoolSize"
| "NodeImpl_method ew ab M_getMempoolDynamicUsage = on_globals R_size getMempoolDynamicUsage"
| "NodeImpl_method ew ab (M_getHeaderTip height block_time) =
     on_globals R_header_tip (getHeaderTip height block_time)"
| "NodeImpl_method ew ab M_getNumBlocks = on_globals R_int getNumBlocks"
| "NodeImpl_method ew ab M_getLastBlockTime = on_globals R_int64 getLastBlockTime"
| "NodeImpl_method ew ab M_getVerificationProgress =
     on_globals R_double (getVerificationProgress (GuessVerificationProgress ab))"
| "NodeImpl_method ew ab M_isInitialBlockDownload = on_globals R_bool isInitialBlockDownload"
| "NodeImpl_method ew ab M_getReindex = on_globals R_bool getReindex"
| "NodeImpl_method ew ab M_getImporting = on_globals R_bool getImporting"
| "NodeImpl_method ew ab (M_setNetworkActive active) = command (setNetworkActive active)"
| "NodeImpl_method ew ab M_getNetworkActive = on_globals R_bool getNetworkActive"
| "NodeImpl_method ew ab (M_handleInitMessage fn) = on_process (\<lambda>p. Inr (handleInitMessage fn p))"
| "NodeImpl_method ew ab (M_handleMessageBox fn) = on_process (\<lambda>p. Inr (handleMessageBox fn p))"
| "NodeImpl_method ew ab (M_handleQuestion fn) = on_process (\<lambda>p. Inr (handleQuestion fn p))"
| "NodeImpl_method ew ab (M_handleShowProgress fn) = on_process (\<lambda>p. Inr (handleShowProgress fn p))"
| "NodeImpl_method ew ab (M_handleLoadWallet fn) = on_process (handleLoadWallet ew fn)"
| "NodeImpl_method ew ab (M_handleNotifyNumConnectionsChanged fn) =
     on_process (\<lambda>p. Inr (handleNotifyNumConnectionsChanged fn p))"
| "NodeImpl_method ew ab (M_handleNotifyNetworkActiveChanged fn) =
     on_process (\<lambda>p. Inr (handleNotifyNetworkActiveChanged fn p))"
| "NodeImpl_method ew ab (M_handleNotifyAlertChanged fn) =
     on_process (\<lambda>p. Inr (handleNotifyAlertChanged fn p))"
| "NodeImpl_method ew ab (M_handleBannedListChanged fn) =
     on_process (\<lambda>p. Inr (handleBannedListChanged fn p))"
| "NodeImpl_method ew ab (M_handleNotifyBlockTip fn) =
     on_process (\<lambda>p. Inr (handleNotifyBlockTip (GuessVerificationProgress ab) fn p))"
| "NodeImpl_method ew ab (M_handleNotifyHeaderTip fn) =
     on_process (\<lambda>p. Inr (handleNotifyHeaderTip (GuessVerificationProgress ab) fn p))"

text \<open>
  A call on the node facade at address \<open>this\<close>, and a call of the one method of the
  wallet facade at address \<open>this\<close>.
\<close>

definition NodeImpl_call ::
  "bool \<Rightarrow> ('t, 'd, 'x) absent_code \<Rightarrow> nat \<Rightarrow> ('d, 'e, 'x) Node_method \<Rightarrow> ('t, 'e) program \<Rightarrow>
   error + ('d, 'x) returned \<times> ('t, 'e) program" where
  "NodeImpl_call ENABLE_WALLET ab this m st =
     (if this < length (node_facades st) then NodeImpl_method ENABLE_WALLET ab m st
      else Inl Invalid_reference)"

definition WalletImpl_call ::
  "nat \<Rightarrow> (ShowProgress_args \<Rightarrow> 'e \<Rightarrow> 'e) \<Rightarrow> ('t, 'e) program \<Rightarrow>
   error + ('d, 'x) returned \<times> ('t, 'e) program" where
  "WalletImpl_call this fn st = on_process (WalletImpl_handleShowProgress this fn) st"

text \<open>The query methods: they return a value and hand no command to a subsystem.\<close>

definition is_query :: "('d, 'e, 'x) Node_method \<Rightarrow> bool" where
  "is_query m =
     (case m of
        M_getWarnings type \<Rightarrow> True
      | M_shutdownRequested \<Rightarrow> True
      | M_helpMessage mode \<Rightarrow> True
      | M_getProxy net proxy_info \<Rightarrow> True
      | M_getNodeCount flags \<Rightarrow> True
      | M_getTotalBytesRecv \<Rightarrow> True
      | M_getTotalBytesSent \<Rightarrow> True
      | M_getMempoolSize \<Rightarrow> True
      | M_getMempoolDynamicUsage \<Rightarrow> True
      | M_getHeaderTip height block_time \<Rightarrow> True
      | M_getNumBlocks \<Rightarrow> True
      | M_getLastBlockTime \<Rightarrow> True
      | M_getVerificationProgress \<Rightarrow> True
      | M_isInitialBlockDownload \<Rightarrow> True
      | M_getReindex \<Rightarrow> True
      | M_getImporting \<Rightarrow> True
      | M_getNetworkActive \<Rightarrow> True
      | _ \<Rightarrow> False)"

subsection \<open>Example states and subscribers\<close>

definition example_genesis :: CBlock where
  "example_genesis = \<lparr>Block_GetBlockTime = 1231006505\<rparr>"

definition example_state :: "nat node_state" where
  "example_state =
     \<lparr>g_connman = None,
      g_mempool = \<lparr>mempool_size = 0, DynamicMemoryUsage = 0\<rparr>,
      pindexBestHeader = None,
      chainActive = \<lparr>Tip = None, Height = - 1\<rparr>,
      Params = \<lparr>GenesisBlock = example_genesis, TxData = 0\<rparr>,
      fReindex = False,
      fImporting = False,
      IsInitialBlockDownload = False,
      cs_main = 0,
      calls = []\<rparr>"

definition example_block :: CBlockIndex where
  "example_block = \<lparr>nHeight = 100, GetBlockTime = 1540000000\<rparr>"

definition example_connman :: CConnman where
  "example_connman =
     \<lparr>GetNodeCount = (\<lambda>flags. 8), GetTotalBytesRecv = 1000, GetTotalBytesSent = 2000,
      GetNetworkActive = True\<rparr>"

text \<open>A subscriber that keeps what its callbacks receive, in order.\<close>

datatype received =
    Tip_received bool c_int int64_t real
  | Wallet_received nat
  | Progress_received ShowProgress_args

definition record_tip ::
  "bool \<Rightarrow> c_int \<Rightarrow> int64_t \<Rightarrow> real \<Rightarrow> received list \<Rightarrow> received list" where
  "record_tip i h t d seen = seen @ [Tip_received i h t d]"

definition record_wallet :: "nat \<Rightarrow> received list \<Rightarrow> received list" where
  "record_wallet ptr seen = seen @ [Wallet_received ptr]"

definition record_progress :: "ShowProgress_args \<Rightarrow> received list \<Rightarrow> received list" where
  "record_progress a seen = seen @ [Progress_received a]"

definition empty_signal :: "('a, 'w) signal" where
  "empty_signal = \<lparr>slots = [], next_id = 0\<rparr>"

definition example_world :: "(nat, received list) world" where
  "example_world = \<lparr>node = example_state, facades = [], ext = []\<rparr>"

definition example_process :: "(nat, received list) process" where
  "example_process =
     \<lparr>uiInterface =
        \<lparr>LoadWallet = empty_signal, NotifyBlockTip = empty_signal,
         NotifyHeaderTip = empty_signal, InitMessage = empty_signal,
         ThreadSafeMessageBox = empty_signal, ThreadSafeQuestion = empty_signal,
         ShowProgress_ui = empty_signal, NotifyNumConnectionsChanged = empty_signal,
         NotifyNetworkActiveChanged = empty_signal, NotifyAlertChanged = empty_signal,
         BannedListChanged = empty_signal\<rparr>,
      wallets = [\<lparr>ShowProgress = empty_signal\<rparr>, \<lparr>ShowProgress = empty_signal\<rparr>],
      world = example_world\<rparr>"

definition almost_synced :: "nat \<Rightarrow> CBlockIndex option \<Rightarrow> real" where
  "almost_synced txdata block = 999999 / 1000000"

definition example_absent :: "(nat, real, string) absent_code" where
  "example_absent =
     \<lparr>GuessVerificationProgress = almost_synced,
      SoftSetArg = (\<lambda>arg val s. True),
      SoftSetBoolArg = (\<lambda>arg val s. True),
      GetWarnings = (\<lambda>type s. []),
      AppInitBasicSetup = (\<lambda>s. True),
      AppInitParameterInteraction = (\<lambda>config rpcServer s. True),
      AppInitSanityChecks = (\<lambda>s. True),
      AppInitLockDataDirectory = (\<lambda>s. True),
      AppInitMain = (\<lambda>config processor s. True),
      ShutdownRequested = (\<lambda>s. Call_StartShutdown \<in> set (calls s)),
      HelpMessage = (\<lambda>mode s. []),
      GetProxy = (\<lambda>net proxy_info s. (False, proxy_info))\<rparr>"

text \<open>
  A program with one node facade and nothing else, and one with the same globals in
  which a second node facade and a wallet facade exist, a subscriber is registered and
  has already received an event.
\<close>

definition example_program :: "(nat, received list) program" where
  "example_program = snd (MakeNode \<lparr>node_facades = [], proc = example_process\<rparr>)"

definition busy_program :: "(nat, received list) program" where
  "busy_program =
     \<lparr>node_facades = [NodeImpl, NodeImpl],
      proc = (snd (handleNotifyBlockTip almost_synced record_tip example_process))
               \<lparr>world := example_world\<lparr>facades := [\<lparr>m_wallet = 1\<rparr>],
                                         ext := [Wallet_received 0]\<rparr>\<rparr>\<rparr>"

section \<open>Theorems\<close>

subsection \<open>Locks and emission\<close>

lemma leave_enter [simp]: "LEAVE_CRITICAL_SECTION (ENTER_CRITICAL_SECTION s) = s"
  by (simp add: ENTER_CRITICAL_SECTION_def LEAVE_CRITICAL_SECTION_def)

lemma enter_fields [simp]:
  "g_connman (ENTER_CRITICAL_SECTION s) = g_connman s"
  "pindexBestHeader (ENTER_CRITICAL_SECTION s) = pindexBestHeader s"
  "chainActive (ENTER_CRITICAL_SECTION s) = chainActive s"
  "Params (ENTER_CRITICAL_SECTION s) = Params s"
  by (simp_all add: ENTER_CRITICAL_SECTION_def)

text \<open>A slot registered last is invoked last, on what the earlier slots left behind.\<close>

lemma invoke_slots_append:
  "invoke_slots (cs @ [c]) a w =
     (case invoke_slots cs a w of Inl e \<Rightarrow> Inl e | Inr w1 \<Rightarrow> snd c a w1)"
  by (induction cs arbitrary: w) (auto split: sum.splits)

lemma emit_connect:
  "emit (snd (connect f sig)) a w = (case emit sig a w of Inl e \<Rightarrow> Inl e | Inr w1 \<Rightarrow> f a w1)"
  by (simp add: emit_def connect_def invoke_slots_append split: sum.splits)

subsection \<open>Subscriptions\<close>

text \<open>
  C1: a subscriber registered through \<^verbatim>\<open>handleNotifyBlockTip\<close> (or
  \<^verbatim>\<open>handleNotifyHeaderTip\<close>) is invoked once for an event that carries a block index,
  after the subscribers registered before it, and receives the initial-download flag
  of the event, the block's height, the block's time and the verification progress
  guessed for that block from the transaction data of the current parameters.
\<close>

theorem tip_events_translated:
  "emit (NotifyBlockTip (uiInterface (snd (handleNotifyBlockTip gvp fn p))))
       (initial_download, Some block) w =
     (case emit (NotifyBlockTip (uiInterface p)) (initial_download, Some block) w of
        Inl e \<Rightarrow> Inl e
      | Inr w1 \<Rightarrow>
          Inr (w1\<lparr>ext := fn initial_download (nHeight block) (GetBlockTime block)
                          (gvp (TxData (Params (node w1))) (Some block)) (ext w1)\<rparr>)) \<and>
   emit (NotifyHeaderTip (uiInterface (snd (handleNotifyHeaderTip gvp fn p))))
       (initial_download, Some block) w =
     (case emit (NotifyHeaderTip (uiInterface p)) (initial_download, Some block) w of
        Inl e \<Rightarrow> Inl e
      | Inr w1 \<Rightarrow>
          Inr (w1\<lparr>ext := fn initial_download (nHeight block) (GetBlockTime block)
                          (gvp (TxData (Params (node w1))) (Some block)) (ext w1)\<rparr>))"
proof -
  have blk: "snd (handleNotifyBlockTip gvp fn p) =
      p\<lparr>uiInterface := (uiInterface p)\<lparr>NotifyBlockTip :=
          snd (connect (tip_slot gvp fn) (NotifyBlockTip (uiInterface p)))\<rparr>\<rparr>"
    by (simp add: handleNotifyBlockTip_def split: prod.splits)
  have hdr: "snd (handleNotifyHeaderTip gvp fn p) =
      p\<lparr>uiInterface := (uiInterface p)\<lparr>NotifyHeaderTip :=
          snd (connect (tip_slot gvp fn) (NotifyHeaderTip (uiInterface p)))\<rparr>\<rparr>"
    by (simp add: handleNotifyHeaderTip_def split: prod.splits)
  show ?thesis
    by (simp add: blk hdr emit_connect tip_slot_def split: sum.splits)
qed

text \<open>
  The scenario of the specification: height 100, a block time, progress 0.999999,
  outside initial download.
\<close>

theorem tip_events_translated_witness:
  "emit (NotifyBlockTip (uiInterface (snd (handleNotifyBlockTip almost_synced record_tip
            example_process))))
       (False, Some example_block) example_world =
     Inr (example_world\<lparr>ext := [Tip_received False 100 1540000000 (999999 / 1000000)]\<rparr>) \<and>
   emit (NotifyHeaderTip (uiInterface (snd (handleNotifyHeaderTip almost_synced record_tip
            example_process))))
       (False, Some example_block) example_world =
     Inr (example_world\<lparr>ext := [Tip_received False 100 1540000000 (999999 / 1000000)]\<rparr>)"
  using tip_events_translated [of almost_synced record_tip example_process False
      example_block example_world]
  by (simp add: example_process_def example_world_def example_block_def empty_signal_def
      emit_def record_tip_def almost_synced_def)

text \<open>
  C4: in a build without \<^verbatim>\<open>ENABLE_WALLET\<close> every call of \<^verbatim>\<open>handleLoadWallet\<close> ends
  in the \<^verbatim>\<open>std::logic_error\<close> of \<^verbatim>\<open>CHECK_WALLET\<close>: no handle is returned and nothing
  is registered.
\<close>

theorem handleLoadWallet_non_wallet_build:
  "handleLoadWallet False fn p =
     Inl (Logic_error ''Wallet function called in non-wallet build.'')"
  by (simp add: handleLoadWallet_def CHECK_WALLET_def)

theorem handleLoadWallet_non_wallet_build_witness:
  "handleLoadWallet False record_wallet example_process =
     Inl (Logic_error ''Wallet function called in non-wallet build.'') \<and>
   handleLoadWallet False record_wallet example_process \<noteq>
     Inr (MakeHandler LoadWallet_channel 0, example_process)"
  using handleLoadWallet_non_wallet_build [of record_wallet example_process]
  by simp

text \<open>
  C5: in a build with \<^verbatim>\<open>ENABLE_WALLET\<close>, \<^verbatim>\<open>handleLoadWallet\<close> returns a handle, and
  from then on every wallet-loaded event that carries a wallet constructs one new
  \<^verbatim>\<open>WalletImpl\<close> whose \<^verbatim>\<open>m_wallet\<close> is that wallet, at an address no facade had
  before, and invokes the callback once with that address. The facades constructed
  earlier stay as they were.
\<close>

theorem handleLoadWallet_fresh_facade:
  "\<exists>h p'. handleLoadWallet True fn p = Inr (h, p') \<and>
     emit (LoadWallet (uiInterface p')) (Some wallet) w =
       (case emit (LoadWallet (uiInterface p)) (Some wallet) w of
          Inl e \<Rightarrow> Inl e
        | Inr w1 \<Rightarrow>
            Inr (w1\<lparr>facades := facades w1 @ [\<lparr>m_wallet = wallet\<rparr>],
                    ext := fn (length (facades w1)) (ext w1)\<rparr>))"
proof -
  let ?sig = "snd (connect (LoadWallet_slot fn) (LoadWallet (uiInterface p)))"
  let ?p' = "p\<lparr>uiInterface := (uiInterface p)\<lparr>LoadWallet := ?sig\<rparr>\<rparr>"
  have sub: "handleLoadWallet True fn p =
      Inr (MakeHandler LoadWallet_channel (next_id (LoadWallet (uiInterface p))), ?p')"
    by (simp add: handleLoadWallet_def CHECK_WALLET_def connect_def)
  have ev: "emit (LoadWallet (uiInterface ?p')) (Some wallet) w =
       (case emit (LoadWallet (uiInterface p)) (Some wallet) w of
          Inl e \<Rightarrow> Inl e
        | Inr w1 \<Rightarrow>
            Inr (w1\<lparr>facades := facades w1 @ [\<lparr>m_wallet = wallet\<rparr>],
                    ext := fn (length (facades w1)) (ext w1)\<rparr>))"
    by (simp add: emit_connect LoadWallet_slot_def MakeWallet_def split: sum.splits)
  from sub ev show ?thesis by blast
qed

text \<open>Two events, for the wallets 0 and 1: two facades, at the addresses 0 and 1.\<close>

theorem handleLoadWallet_fresh_facade_witness:
  "\<exists>h p'. handleLoadWallet True record_wallet example_process = Inr (h, p') \<and>
     emit (LoadWallet (uiInterface p')) (Some 0) example_world =
       Inr (example_world\<lparr>facades := [\<lparr>m_wallet = 0\<rparr>], ext := [Wallet_received 0]\<rparr>) \<and>
     emit (LoadWallet (uiInterface p')) (Some 1)
         (example_world\<lparr>facades := [\<lparr>m_wallet = 0\<rparr>], ext := [Wallet_received 0]\<rparr>) =
       Inr (example_world\<lparr>facades := [\<lparr>m_wallet = 0\<rparr>, \<lparr>m_wallet = 1\<rparr>],
              ext := [Wallet_received 0, Wallet_received 1]\<rparr>)"
proof -
  from handleLoadWallet_fresh_facade [of record_wallet example_process 0 example_world]
  obtain h p' where sub: "handleLoadWallet True record_wallet example_process = Inr (h, p')"
    by blast
  from handleLoadWallet_fresh_facade [of record_wallet example_process 0 example_world] sub
  have first: "emit (LoadWallet (uiInterface p')) (Some 0) example_world =
       Inr (example_world\<lparr>facades := [\<lparr>m_wallet = 0\<rparr>], ext := [Wallet_received 0]\<rparr>)"
    by (simp add: example_process_def example_world_def empty_signal_def emit_def
        record_wallet_def)
  from handleLoadWallet_fresh_facade [of record_wallet example_process 1
      "example_world\<lparr>facades := [\<lparr>m_wallet = 0\<rparr>], ext := [Wallet_received 0]\<rparr>"] sub
  have second: "emit (LoadWallet (uiInterface p')) (Some 1)
         (example_world\<lparr>facades := [\<lparr>m_wallet = 0\<rparr>], ext := [Wallet_received 0]\<rparr>) =
       Inr (example_world\<lparr>facades := [\<lparr>m_wallet = 0\<rparr>, \<lparr>m_wallet = 1\<rparr>],
              ext := [Wallet_received 0, Wallet_received 1]\<rparr>)"
    by (simp add: example_process_def example_world_def empty_signal_def emit_def
        record_wallet_def)
  from sub first second show ?thesis by blast
qed

text \<open>The channel's \<^verbatim>\<open>unregister\<close> is idempotent.\<close>

lemma unregister_idem: "unregister i (unregister i sig) = unregister i sig"
  by (simp add: unregister_def)

lemma unregister_from_idem:
  "unregister_from ch i (unregister_from ch i p) = unregister_from ch i p"
  by (cases ch) (simp_all add: unregister_from_def unregister_idem)

text \<open>
  C7: after \<^verbatim>\<open>disconnect\<close> the handle is disconnected, and a further \<^verbatim>\<open>disconnect\<close>
  of it returns the handle and the process unchanged, right after the first one or at
  any later state \<open>p'\<close> of the process. The registrations are also the same when the
  second call goes through to the channel (the last conjunct, for the handle as it was
  before the first call).
\<close>

theorem disconnect_twice_is_noop:
  "\<not> connected (fst (disconnect h p)) \<and>
   disconnect (fst (disconnect h p)) (snd (disconnect h p)) = disconnect h p \<and>
   disconnect (fst (disconnect h p)) p' = (fst (disconnect h p), p') \<and>
   snd (disconnect h (snd (disconnect h p))) = snd (disconnect h p)"
  by (simp add: disconnect_def unregister_from_idem)

text \<open>
  A subscription to the block tip, disconnected twice: the first call empties the
  channel, the second changes nothing.
\<close>

theorem disconnect_twice_is_noop_witness:
  "fst (handleNotifyBlockTip almost_synced record_tip example_process) =
     MakeHandler NotifyBlockTip_channel 0 \<and>
   slots (NotifyBlockTip (uiInterface (snd (disconnect (MakeHandler NotifyBlockTip_channel 0)
     (snd (handleNotifyBlockTip almost_synced record_tip example_process)))))) = [] \<and>
   disconnect (fst (disconnect (MakeHandler NotifyBlockTip_channel 0)
        (snd (handleNotifyBlockTip almost_synced record_tip example_process))))
      (snd (disconnect (MakeHandler NotifyBlockTip_channel 0)
        (snd (handleNotifyBlockTip almost_synced record_tip example_process)))) =
     (\<lparr>channel = NotifyBlockTip_channel, registration = 0, connected = False\<rparr>,
      example_process\<lparr>uiInterface := (uiInterface example_process)
        \<lparr>NotifyBlockTip := \<lparr>slots = [], next_id = 1\<rparr>\<rparr>\<rparr>)"
  using disconnect_twice_is_noop [of "MakeHandler NotifyBlockTip_channel 0"
      "snd (handleNotifyBlockTip almost_synced record_tip example_process)"
      example_process]
  by (simp add: handleNotifyBlockTip_def connect_def example_process_def empty_signal_def
      MakeHandler_def disconnect_def unregister_from_def unregister_def)

subsection \<open>Queries\<close>

text \<open>
  C3: before any best header is known \<^verbatim>\<open>getHeaderTip\<close> returns false and both output
  parameters keep the values they had; when a best header exists it returns true with
  \<^verbatim>\<open>height\<close> set to that header's height and \<^verbatim>\<open>block_time\<close> to its block time. Either
  way the lock is released and the globals are as before.
\<close>

theorem getHeaderTip_absent_or_tip:
  "(pindexBestHeader s = None \<longrightarrow>
      getHeaderTip height block_time s = ((False, height, block_time), s)) \<and>
   (\<forall>header. pindexBestHeader s = Some header \<longrightarrow>
      getHeaderTip height block_time s =
        ((True, nHeight header, GetBlockTime header), s))"
  by (simp add: getHeaderTip_def)

theorem getHeaderTip_absent_or_tip_witness:
  "pindexBestHeader example_state = None \<and>
   getHeaderTip 7 9 example_state = ((False, 7, 9), example_state) \<and>
   pindexBestHeader (example_state\<lparr>pindexBestHeader := Some example_block\<rparr>) = Some example_block \<and>
   getHeaderTip 7 9 (example_state\<lparr>pindexBestHeader := Some example_block\<rparr>) =
     ((True, 100, 1540000000), example_state\<lparr>pindexBestHeader := Some example_block\<rparr>)"
  using getHeaderTip_absent_or_tip [of example_state 7 9]
    getHeaderTip_absent_or_tip [of "example_state\<lparr>pindexBestHeader := Some example_block\<rparr>" 7 9]
  by (simp add: example_state_def example_block_def)

text \<open>
  C6: while there is no connection manager, \<^verbatim>\<open>getNodeCount\<close>,
  \<^verbatim>\<open>getTotalBytesRecv\<close> and \<^verbatim>\<open>getTotalBytesSent\<close> return 0 and \<^verbatim>\<open>getNetworkActive\<close>
  returns false; none of them fails or changes the globals.
\<close>

theorem connman_absent_queries:
  "g_connman s = None \<Longrightarrow>
     getNodeCount flags s = (0, s) \<and> getTotalBytesRecv s = (0, s) \<and>
     getTotalBytesSent s = (0, s) \<and> getNetworkActive s = (False, s)"
  by (simp add: getNodeCount_def getTotalBytesRecv_def getTotalBytesSent_def
      getNetworkActive_def)

theorem connman_absent_queries_witness:
  "g_connman example_state = None \<and>
   getNodeCount 3 example_state = (0, example_state) \<and>
   getTotalBytesRecv example_state = (0, example_state) \<and>
   getTotalBytesSent example_state = (0, example_state) \<and>
   getNetworkActive example_state = (False, example_state)"
proof -
  have absent: "g_connman example_state = None"
    by (simp add: example_state_def)
  from connman_absent_queries [OF absent, of 3] absent show ?thesis
    by simp
qed

text \<open>
  C10: \<^verbatim>\<open>getLastBlockTime\<close> always returns a block time: that of the tip of the
  active chain when there is one, and that of the genesis block of the current network
  parameters when the chain is empty.
\<close>

theorem getLastBlockTime_tip_or_genesis:
  "(\<forall>tip. Tip (chainActive s) = Some tip \<longrightarrow> getLastBlockTime s = (GetBlockTime tip, s)) \<and>
   (Tip (chainActive s) = None \<longrightarrow>
      getLastBlockTime s = (Block_GetBlockTime (GenesisBlock (Params s)), s))"
  by (simp add: getLastBlockTime_def)

theorem getLastBlockTime_tip_or_genesis_witness:
  "Tip (chainActive example_state) = None \<and>
   fst (getLastBlockTime example_state) = 1231006505 \<and>
   Tip (chainActive (example_state\<lparr>chainActive := \<lparr>Tip = Some example_block, Height = 100\<rparr>\<rparr>))
     = Some example_block \<and>
   fst (getLastBlockTime (example_state\<lparr>chainActive := \<lparr>Tip = Some example_block, Height = 100\<rparr>\<rparr>))
     = 1540000000"
  using getLastBlockTime_tip_or_genesis [of example_state]
    getLastBlockTime_tip_or_genesis
      [of "example_state\<lparr>chainActive := \<lparr>Tip = Some example_block, Height = 100\<rparr>\<rparr>"]
  by (simp add: example_state_def example_block_def example_genesis_def)

text \<open>
  What a call leaves of the facades, and what a query reads.
\<close>

lemma on_globals_frame:
  "on_globals ret f st = Inr (r, st') \<Longrightarrow>
     node_facades st' = node_facades st \<and>
     facades (world (proc st')) = facades (world (proc st))"
  by (auto simp add: on_globals_def split: prod.splits)

lemma command_frame:
  "command f st = Inr (r, st') \<Longrightarrow>
     node_facades st' = node_facades st \<and>
     facades (world (proc st')) = facades (world (proc st))"
  unfolding command_def by (rule on_globals_frame)

lemma on_process_frame:
  assumes "on_process f st = Inr (r, st')"
    and "\<And>h p'. f (proc st) = Inr (h, p') \<Longrightarrow> world p' = world (proc st)"
  shows "node_facades st' = node_facades st \<and>
     facades (world (proc st')) = facades (world (proc st))"
  using assms by (auto simp add: on_process_def split: sum.splits prod.splits)

lemma subscribe_world:
  "handleInitMessage fn1 p = (h, p') \<Longrightarrow> world p' = world p"
  "handleMessageBox fn2 p = (h, p') \<Longrightarrow> world p' = world p"
  "handleQuestion fn2 p = (h, p') \<Longrightarrow> world p' = world p"
  "handleShowProgress fn3 p = (h, p') \<Longrightarrow> world p' = world p"
  "handleNotifyNumConnectionsChanged fn4 p = (h, p') \<Longrightarrow> world p' = world p"
  "handleNotifyNetworkActiveChanged fn5 p = (h, p') \<Longrightarrow> world p' = world p"
  "handleNotifyAlertChanged fn6 p = (h, p') \<Longrightarrow> world p' = world p"
  "handleBannedListChanged fn6 p = (h, p') \<Longrightarrow> world p' = world p"
  "handleNotifyBlockTip gvp fn7 p = (h, p') \<Longrightarrow> world p' = world p"
  "handleNotifyHeaderTip gvp fn7 p = (h, p') \<Longrightarrow> world p' = world p"
  by (auto simp add: handleInitMessage_def handleMessageBox_def handleQuestion_def
      handleShowProgress_def handleNotifyNumConnectionsChanged_def
      handleNotifyNetworkActiveChanged_def handleNotifyAlertChanged_def
      handleBannedListChanged_def handleNotifyBlockTip_def handleNotifyHeaderTip_def
      split: prod.splits)

lemma handleLoadWallet_world:
  "handleLoadWallet ew fn p = Inr (h, p') \<Longrightarrow> world p' = world p"
  by (auto simp add: handleLoadWallet_def CHECK_WALLET_def split: prod.splits if_splits)

lemma WalletImpl_handleShowProgress_world:
  "WalletImpl_handleShowProgress this fn p = Inr (h, p') \<Longrightarrow> world p' = world p"
  by (auto simp add: WalletImpl_handleShowProgress_def Let_def split: prod.splits if_splits)

lemma NodeImpl_method_frame:
  "NodeImpl_method ew ab m st = Inr (r, st') \<Longrightarrow>
     node_facades st' = node_facades st \<and>
     facades (world (proc st')) = facades (world (proc st))"
  by (cases m)
    (auto simp add: on_process_def
      dest: on_globals_frame command_frame handleLoadWallet_world subscribe_world
      split: prod.splits sum.splits)

lemma on_globals_pure:
  assumes "\<And>s. snd (f s) = s"
  shows "on_globals ret f st = Inr (ret (fst (f (node (world (proc st))))), st)"
proof (cases "f (node (world (proc st)))")
  case (Pair r s')
  with assms [of "node (world (proc st))"] have "s' = node (world (proc st))"
    by simp
  with Pair show ?thesis
    by (simp add: on_globals_def)
qed

lemma queries_pure:
  "snd (getWarnings ab type s) = s" "snd (shutdownRequested ab s) = s"
  "snd (helpMessage ab mode s) = s" "snd (getProxy ab net proxy_info s) = s"
  "snd (getNodeCount flags s) = s" "snd (getTotalBytesRecv s) = s"
  "snd (getTotalBytesSent s) = s" "snd (getMempoolSize s) = s"
  "snd (getMempoolDynamicUsage s) = s" "snd (getHeaderTip height block_time s) = s"
  "snd (getNumBlocks s) = s" "snd (getLastBlockTime s) = s"
  "snd (getVerificationProgress gvp s) = s" "snd (isInitialBlockDownload s) = s"
  "snd (getReindex s) = s" "snd (getImporting s) = s" "snd (getNetworkActive s) = s"
  by (simp_all add: getWarnings_def shutdownRequested_def helpMessage_def getProxy_def
      getNodeCount_def getTotalBytesRecv_def getTotalBytesSent_def getMempoolSize_def
      getMempoolDynamicUsage_def getHeaderTip_def getNumBlocks_def getLastBlockTime_def
      getVerificationProgress_def isInitialBlockDownload_def getReindex_def getImporting_def
      getNetworkActive_def Let_def split: option.splits)

lemma query_reads_globals:
  assumes "is_query m" and "node (world (proc st2)) = node (world (proc st))"
    and "NodeImpl_method ew ab m st = Inr (r, st')"
  shows "st' = st \<and> NodeImpl_method ew ab m st2 = Inr (r, st2)"
  using assms
  by (cases m) (auto simp add: is_query_def on_globals_pure queries_pure)

lemma query_returns:
  "is_query m \<Longrightarrow> \<exists>r. NodeImpl_method ew ab m st = Inr (r, st)"
  by (cases m) (auto simp add: is_query_def on_globals_pure queries_pure)

text \<open>
  C9: a call of any method of \<^verbatim>\<open>NodeImpl\<close> or \<^verbatim>\<open>WalletImpl\<close> on a facade, when it
  returns, leaves every node facade and every wallet facade as it was: none is
  created, removed or changed. A query method called on a live node facade returns a
  value and leaves the whole program as it was; and whenever the same query is then
  called on any live node facade in any state of the program with the same globals
  of the subsystems (whatever facades, subscriptions and subscriber state there are
  by then), it returns the same value: no facade, channel or subscriber keeps it.
\<close>

theorem facade_calls_stateless:
  "(NodeImpl_call ew ab this m st = Inr (r, st') \<longrightarrow>
      node_facades st' = node_facades st \<and>
      facades (world (proc st')) = facades (world (proc st))) \<and>
   (WalletImpl_call this_w fn st = Inr (r_w, st_w) \<longrightarrow>
      node_facades st_w = node_facades st \<and>
      facades (world (proc st_w)) = facades (world (proc st))) \<and>
   (is_query m \<and> this < length (node_facades st) \<longrightarrow>
      (\<exists>v. NodeImpl_call ew ab this m st = Inr (v, st))) \<and>
   (is_query m \<and> NodeImpl_call ew ab this m st = Inr (r, st') \<and>
    that < length (node_facades st2) \<and>
    node (world (proc st2)) = node (world (proc st)) \<longrightarrow>
      st' = st \<and> NodeImpl_call ew ab that m st2 = Inr (r, st2))"
proof -
  have node_frame: "NodeImpl_call ew ab this m st = Inr (r, st') \<longrightarrow>
      node_facades st' = node_facades st \<and>
      facades (world (proc st')) = facades (world (proc st))"
    by (auto simp add: NodeImpl_call_def dest: NodeImpl_method_frame split: if_splits)
  have wallet_frame: "WalletImpl_call this_w fn st = Inr (r_w, st_w) \<longrightarrow>
      node_facades st_w = node_facades st \<and>
      facades (world (proc st_w)) = facades (world (proc st))"
    by (auto simp add: WalletImpl_call_def
        dest: on_process_frame [OF _ WalletImpl_handleShowProgress_world])
  have returns: "is_query m \<and> this < length (node_facades st) \<longrightarrow>
      (\<exists>v. NodeImpl_call ew ab this m st = Inr (v, st))"
    by (simp add: NodeImpl_call_def query_returns)
  have again: "is_query m \<and> NodeImpl_call ew ab this m st = Inr (r, st') \<and>
    that < length (node_facades st2) \<and>
    node (world (proc st2)) = node (world (proc st)) \<longrightarrow>
      st' = st \<and> NodeImpl_call ew ab that m st2 = Inr (r, st2)"
    by (auto simp add: NodeImpl_call_def dest: query_reads_globals split: if_splits)
  from node_frame wallet_frame returns again show ?thesis
    by blast
qed

text \<open>
  The block time of the genesis block, asked of the only node facade of a fresh
  program and then of the second node facade of the busy one; a subscription to
  wallet-loaded events, and one taken through the wallet facade at address 0.
\<close>

theorem facade_calls_stateless_witness:
  "is_query (M_getLastBlockTime :: (real, received list, string) Node_method) \<and>
   0 < length (node_facades example_program) \<and>
   NodeImpl_call True example_absent 0 M_getLastBlockTime example_program =
     Inr (R_int64 1231006505, example_program) \<and>
   1 < length (node_facades busy_program) \<and>
   node (world (proc busy_program)) = node (world (proc example_program)) \<and>
   NodeImpl_call True example_absent 1 M_getLastBlockTime busy_program =
     Inr (R_int64 1231006505, busy_program) \<and>
   (\<exists>h st'. NodeImpl_call True example_absent 0 (M_handleLoadWallet record_wallet)
        example_program = Inr (R_handler h, st') \<and>
      node_facades st' = [NodeImpl] \<and> facades (world (proc st')) = []) \<and>
   (\<exists>h st'. (WalletImpl_call 0 record_progress busy_program ::
         error + (real, string) returned \<times> (nat, received list) program) =
        Inr (R_handler h, st') \<and>
      channel h = ShowProgress_channel 1 \<and>
      node_facades st' = [NodeImpl, NodeImpl] \<and>
      facades (world (proc st')) = [\<lparr>m_wallet = 1\<rparr>])"
proof -
  have q: "is_query (M_getLastBlockTime :: (real, received list, string) Node_method)"
    by (simp add: is_query_def)
  have live: "0 < length (node_facades example_program)"
    "1 < length (node_facades busy_program)"
    by (simp_all add: example_program_def busy_program_def MakeNode_def)
  have same: "node (world (proc busy_program)) = node (world (proc example_program))"
    by (simp add: example_program_def busy_program_def MakeNode_def example_process_def
        example_world_def)
  have first: "NodeImpl_call True example_absent 0 M_getLastBlockTime example_program =
     Inr (R_int64 1231006505, example_program)"
    using facade_calls_stateless [of True example_absent 0 M_getLastBlockTime
        example_program _ _ 0 record_progress _ _ 1 busy_program] q live
    by (auto simp add: NodeImpl_call_def on_globals_def getLastBlockTime_def
        example_program_def MakeNode_def example_process_def example_world_def
        example_state_def example_genesis_def split: prod.splits)
  have second: "NodeImpl_call True example_absent 1 M_getLastBlockTime busy_program =
     Inr (R_int64 1231006505, busy_program)"
    using facade_calls_stateless [of True example_absent 0 M_getLastBlockTime
        example_program "R_int64 1231006505" example_program 0 record_progress _ _ 1
        busy_program] q live same first
    by blast
  have sub: "\<exists>h st'. NodeImpl_call True example_absent 0 (M_handleLoadWallet record_wallet)
        example_program = Inr (R_handler h, st') \<and>
      node_facades st' = [NodeImpl] \<and> facades (world (proc st')) = []"
    by (simp add: NodeImpl_call_def on_process_def handleLoadWallet_def CHECK_WALLET_def
        connect_def example_program_def MakeNode_def example_process_def example_world_def)
  have wal: "\<exists>h st'. (WalletImpl_call 0 record_progress busy_program ::
         error + (real, string) returned \<times> (nat, received list) program) =
        Inr (R_handler h, st') \<and>
      channel h = ShowProgress_channel 1 \<and>
      node_facades st' = [NodeImpl, NodeImpl] \<and>
      facades (world (proc st')) = [\<lparr>m_wallet = 1\<rparr>]"
    by (simp add: WalletImpl_call_def on_process_def WalletImpl_handleShowProgress_def
        connect_def busy_program_def handleNotifyBlockTip_def example_process_def
        example_world_def empty_signal_def MakeHandler_def)
  from q live same first second sub wal show ?thesis
    by blast
qed

subsection \<open>Control methods\<close>

text \<open>
  C8, as stated, fails where there is no connection manager: \<^verbatim>\<open>setNetworkActive\<close>
  then returns without handing the flag to anything.
\<close>

theorem setNetworkActive_without_connman:
  "g_connman example_state = None \<and>
   setNetworkActive True example_state = example_state \<and>
   calls (setNetworkActive True example_state) \<noteq>
     calls example_state @ [Call_SetNetworkActive True]"
  by (simp add: setNetworkActive_def example_state_def)

text \<open>
  C8, amended: \<^verbatim>\<open>startShutdown\<close> calls \<^verbatim>\<open>StartShutdown\<close>; \<^verbatim>\<open>mapPort(true)\<close> calls
  \<^verbatim>\<open>StartMapPort\<close> and \<^verbatim>\<open>mapPort(false)\<close> calls \<^verbatim>\<open>InterruptMapPort\<close> and then
  \<^verbatim>\<open>StopMapPort\<close>; \<^verbatim>\<open>setNetworkActive(active)\<close> hands the flag to the connection
  manager when there is one and does nothing when there is none. Each method returns
  once the call is made, with no result, and changes nothing else.
\<close>

theorem control_methods_forward:
  "startShutdown s = s\<lparr>calls := calls s @ [Call_StartShutdown]\<rparr> \<and>
   mapPort True s = s\<lparr>calls := calls s @ [Call_StartMapPort]\<rparr> \<and>
   mapPort False s = s\<lparr>calls := calls s @ [Call_InterruptMapPort, Call_StopMapPort]\<rparr> \<and>
   (g_connman s \<noteq> None \<longrightarrow>
      setNetworkActive active s = s\<lparr>calls := calls s @ [Call_SetNetworkActive active]\<rparr>) \<and>
   (g_connman s = None \<longrightarrow> setNetworkActive active s = s)"
  by (auto simp add: startShutdown_def mapPort_def setNetworkActive_def invoke_def)

theorem control_methods_forward_witness:
  "calls (startShutdown example_state) = [Call_StartShutdown] \<and>
   calls (mapPort True example_state) = [Call_StartMapPort] \<and>
   calls (mapPort False example_state) = [Call_InterruptMapPort, Call_StopMapPort] \<and>
   g_connman (example_state\<lparr>g_connman := Some example_connman\<rparr>) \<noteq> None \<and>
   calls (setNetworkActive False (example_state\<lparr>g_connman := Some example_connman\<rparr>)) =
     [Call_SetNetworkActive False] \<and>
   g_connman example_state = None \<and>
   calls (setNetworkActive False example_state) = []"
  using control_methods_forward [of example_state False]
    control_methods_forward [of "example_state\<lparr>g_connman := Some example_connman\<rparr>" False]
  by (simp add: example_state_def)

end
